theory Spec2Isabelle
  imports Main
begin

section \<open>Strings\<close>

text \<open>
  Python \<open>str\<close> values are modelled as \<open>string\<close>. File contents are read and written in
  text mode; the model covers contents in which one character is one byte, so that the
  character index returned by \<open>str.find\<close> is also the file offset given to \<open>seek\<close>.
\<close>

definition lower_char :: "char \<Rightarrow> char" where
  "lower_char c =
     (let n = (of_char c :: nat) in if 65 \<le> n \<and> n \<le> 90 then char_of (n + 32) else c)"

definition lower :: "string \<Rightarrow> string" where
  \<comment> \<open>\<open>str.lower()\<close>\<close>
  "lower s = map lower_char s"

fun split_sep :: "char \<Rightarrow> string \<Rightarrow> string list" where
  \<comment> \<open>\<open>s.split(c)\<close> for a one-character separator\<close>
  "split_sep c [] = [[]]"
| "split_sep c (x # xs) =
     (if x = c then [] # split_sep c xs
      else (case split_sep c xs of [] \<Rightarrow> [[x]] | y # ys \<Rightarrow> (x # y) # ys))"

definition first_field :: "char \<Rightarrow> string \<Rightarrow> string" where
  \<comment> \<open>\<open>s.split(c)[0]\<close>; the list returned by \<open>split\<close> is never empty\<close>
  "first_field c s = (case split_sep c s of [] \<Rightarrow> [] | y # _ \<Rightarrow> y)"

fun find_sub :: "string \<Rightarrow> string \<Rightarrow> nat option" where
  \<comment> \<open>\<open>s.find(sub)\<close>: the lowest index at which \<open>sub\<close> occurs; \<open>None\<close> stands for \<open>-1\<close>\<close>
  "find_sub sub [] = (if sub = [] then Some 0 else None)"
| "find_sub sub (c # cs) =
     (if take (length sub) (c # cs) = sub then Some 0
      else map_option Suc (find_sub sub cs))"

definition rfind :: "char \<Rightarrow> string \<Rightarrow> int" where
  \<comment> \<open>\<open>s.rfind(c)\<close>: the highest index of \<open>c\<close>, or \<open>-1\<close>\<close>
  "rfind c s =
     (if c \<in> set s then int (length s) - 1 - int (length (takeWhile (\<lambda>x. x \<noteq> c) (rev s)))
      else - 1)"

definition splitext :: "string \<Rightarrow> string \<times> string" where
  \<comment> \<open>\<open>os.path.splitext\<close>: the extension starts at the last dot of the last component,
      unless only dots precede it there\<close>
  "splitext p =
     (let sepIndex = rfind CHR ''/'' p; dotIndex = rfind CHR ''.'' p in
      if dotIndex > sepIndex \<and>
         list_ex (\<lambda>c. c \<noteq> CHR ''.'')
           (take (nat dotIndex - nat (sepIndex + 1)) (drop (nat (sepIndex + 1)) p))
      then (take (nat dotIndex) p, drop (nat dotIndex) p)
      else (p, []))"

section \<open>Paths\<close>

text \<open>
  A \<open>pathlib.PosixPath\<close> is its root (none, \<open>/\<close>, or the POSIX special case \<open>//\<close>) and its
  components. Two paths are equal when both agree, as \<open>PurePath.__eq__\<close> has it.
\<close>

datatype anchor = Relative | Root | DoubleRoot

datatype posix_path = PosixPath (root: anchor) (parts: "string list")

definition parse_root :: "string \<Rightarrow> anchor" where
  "parse_root s =
     (if take 2 s = ''//'' \<and> take 3 s \<noteq> ''///'' then DoubleRoot
      else if take 1 s = ''/'' then Root
      else Relative)"

definition parse_path :: "string \<Rightarrow> posix_path" where
  \<comment> \<open>\<open>Path(s)\<close>: empty and \<open>.\<close> components are dropped, \<open>..\<close> is kept\<close>
  "parse_path s =
     PosixPath (parse_root s) (filter (\<lambda>x. x \<noteq> [] \<and> x \<noteq> ''.'') (split_sep CHR ''/'' s))"

definition root_str :: "anchor \<Rightarrow> string" where
  "root_str r = (case r of Relative \<Rightarrow> [] | Root \<Rightarrow> ''/'' | DoubleRoot \<Rightarrow> ''//'')"

fun join_sep :: "string list \<Rightarrow> string" where
  \<comment> \<open>\<open>'/'.join(xs)\<close>\<close>
  "join_sep [] = []"
| "join_sep [x] = x"
| "join_sep (x # y # ys) = x @ CHR ''/'' # join_sep (y # ys)"

definition str_of_path :: "posix_path \<Rightarrow> string" where
  \<comment> \<open>\<open>str(p)\<close>\<close>
  "str_of_path p =
     (if root p = Relative \<and> parts p = [] then ''.''
      else root_str (root p) @ join_sep (parts p))"

definition join_path :: "posix_path \<Rightarrow> posix_path \<Rightarrow> posix_path" where
  \<comment> \<open>\<open>p / q\<close>: an absolute right operand replaces the left one\<close>
  "join_path p q =
     (if root q \<noteq> Relative then q else PosixPath (root p) (parts p @ parts q))"

definition parent :: "posix_path \<Rightarrow> posix_path" where
  \<comment> \<open>\<open>p.parent\<close>\<close>
  "parent p = (if parts p = [] then p else PosixPath (root p) (butlast (parts p)))"

definition name :: "posix_path \<Rightarrow> string" where
  \<comment> \<open>\<open>p.name\<close>\<close>
  "name p = (if parts p = [] then [] else last (parts p))"

fun normalize :: "string list \<Rightarrow> string list \<Rightarrow> string list" where
  \<comment> \<open>the component loop of \<open>os.path.normpath\<close>; the first argument is the stack of
      components kept so far, innermost first\<close>
  "normalize acc [] = rev acc"
| "normalize acc (x # xs) =
     (if x = [] \<or> x = ''.'' then normalize acc xs
      else if x = ''..'' then normalize (case acc of [] \<Rightarrow> [] | _ # t \<Rightarrow> t) xs
      else normalize (x # acc) xs)"

definition resolve :: "posix_path \<Rightarrow> posix_path \<Rightarrow> posix_path" where
  \<comment> \<open>\<open>p.resolve()\<close> in the working directory \<open>wd\<close>, on a file system without symbolic
      links: the path is made absolute and \<open>..\<close> is folded away\<close>
  "resolve wd p =
     PosixPath Root (normalize [] ((if root p = Relative then parts wd else []) @ parts p))"

fun common_len :: "string list \<Rightarrow> string list \<Rightarrow> nat" where
  \<comment> \<open>\<open>len(os.path.commonprefix([xs, ys]))\<close>\<close>
  "common_len (x # xs) (y # ys) = (if x = y then Suc (common_len xs ys) else 0)"
| "common_len _ _ = 0"

definition relpath :: "posix_path \<Rightarrow> posix_path \<Rightarrow> posix_path \<Rightarrow> string" where
  \<comment> \<open>\<open>os.path.relpath(p, start)\<close>\<close>
  "relpath wd p start =
     (let start_list = parts (resolve wd start);
          path_list = parts (resolve wd p);
          i = common_len start_list path_list;
          rel_list = replicate (length start_list - i) ''..'' @ drop i path_list
      in if rel_list = [] then ''.'' else join_sep rel_list)"

section \<open>The renderer and the file system\<close>

text \<open>
  The markdown renderer and the HTML parser are collaborators outside the repository. The
  program looks at a parsed document through two XPath queries only, so a document tree is
  the pair of their answers. The parser may raise instead of returning a tree.
\<close>

record element_tree =
  h1_texts :: "string list"           \<comment> \<open>\<open>doctree.xpath('//h1//text()')\<close>\<close>
  a_hrefs :: "string option list"     \<comment> \<open>\<open>a.get('href')\<close> for each \<open>a\<close> of \<open>doctree.xpath('//a')\<close>\<close>

record env =
  cwd :: posix_path                              \<comment> \<open>the working directory of the process\<close>
  render :: "string \<Rightarrow> element_tree option"      \<comment> \<open>\<open>lxml.html.fromstring(markdown.markdown(text))\<close>\<close>

datatype error = OSError posix_path | ParserError | KeyError posix_path

text \<open>
  The file system maps the canonical path of each regular file to its content. It is an
  association list: its order is the order in which a directory walk meets the files.
\<close>

type_synonym filesystem = "(posix_path \<times> string) list"

fun dict_set :: "('k \<times> 'v) list \<Rightarrow> 'k \<Rightarrow> 'v \<Rightarrow> ('k \<times> 'v) list" where
  \<comment> \<open>\<open>d[k] = v\<close>: a present key keeps its place, a new key goes last\<close>
  "dict_set [] k v = [(k, v)]"
| "dict_set ((k', v') # d) k v =
     (if k' = k then (k, v) # d else (k', v') # dict_set d k v)"

definition read_file :: "env \<Rightarrow> filesystem \<Rightarrow> posix_path \<Rightarrow> error + string" where
  "read_file e fs p =
     (case map_of fs (resolve (cwd e) p) of None \<Rightarrow> Inl (OSError p) | Some c \<Rightarrow> Inr c)"

definition write_file :: "env \<Rightarrow> filesystem \<Rightarrow> posix_path \<Rightarrow> string \<Rightarrow> filesystem" where
  "write_file e fs p c = dict_set fs (resolve (cwd e) p) c"

definition append_file :: "env \<Rightarrow> filesystem \<Rightarrow> posix_path \<Rightarrow> string \<Rightarrow> filesystem" where
  \<comment> \<open>\<open>open(p, 'a+')\<close> followed by writes: the file is created when it is missing\<close>
  "append_file e fs p t =
     (case map_of fs (resolve (cwd e) p) of
        None \<Rightarrow> write_file e fs p t
      | Some c \<Rightarrow> write_file e fs p (c @ t))"

definition matches_md :: "string \<Rightarrow> bool" where
  \<comment> \<open>the file name matches the pattern \<open>*.md\<close>\<close>
  "matches_md n = (3 \<le> length n \<and> drop (length n - 3) n = ''.md'')"

definition rglob_md :: "env \<Rightarrow> filesystem \<Rightarrow> posix_path \<Rightarrow> posix_path list" where
  \<comment> \<open>\<open>p.rglob('*.md')\<close>: each file below \<open>p\<close> whose name matches, as \<open>p\<close> joined with the
      file's location relative to \<open>p\<close>\<close>
  "rglob_md e fs p =
     (let base = parts (resolve (cwd e) p) in
      [PosixPath (root p) (parts p @ drop (length base) (parts k)).
         (k, c) \<leftarrow> fs,
         root k = Root \<and> length base < length (parts k) \<and>
         take (length base) (parts k) = base \<and> matches_md (last (parts k))])"

section \<open>MarkdownFile\<close>

record markdown_file =
  path :: posix_path
  heading :: string

definition doctree :: "env \<Rightarrow> filesystem \<Rightarrow> markdown_file \<Rightarrow> error + element_tree" where
  "doctree e fs f =
     (case read_file e fs (path f) of
        Inl x \<Rightarrow> Inl x
      | Inr text \<Rightarrow> (case render e text of None \<Rightarrow> Inl ParserError | Some t \<Rightarrow> Inr t))"

definition MarkdownFile :: "env \<Rightarrow> filesystem \<Rightarrow> posix_path \<Rightarrow> error + markdown_file" where
  \<comment> \<open>\<open>MarkdownFile.__init__\<close>; the back-reference to the directory is passed to the
      methods that use it\<close>
  "MarkdownFile e fs p =
     (case doctree e fs \<lparr>path = p, heading = []\<rparr> of
        Inl x \<Rightarrow> Inl x
      | Inr t \<Rightarrow>
          Inr \<lparr>path = p,
               heading = (case h1_texts t of [] \<Rightarrow> name p | h # _ \<Rightarrow> h)\<rparr>)"

definition get_absolute_path :: "env \<Rightarrow> markdown_file \<Rightarrow> string option \<Rightarrow> posix_path option" where
  \<comment> \<open>the argument is an \<open>href\<close> attribute: a string, or \<open>None\<close> when the attribute is absent\<close>
  "get_absolute_path e f somepath =
     (case somepath of
        None \<Rightarrow> None
      | Some [] \<Rightarrow> None
      | Some (c # cs) \<Rightarrow>
          if c = CHR ''/'' then Some (parse_path (c # cs))
          else Some (resolve (cwd e)
                 (join_path (resolve (cwd e) (parent (path f)))
                    (parse_path (first_field CHR ''#'' (c # cs))))))"

definition str_of_link :: "posix_path option \<Rightarrow> string" where
  \<comment> \<open>\<open>str(somelink)\<close>, where \<open>somelink\<close> may be \<open>None\<close>\<close>
  "str_of_link somelink = (case somelink of None \<Rightarrow> ''None'' | Some p \<Rightarrow> str_of_path p)"

definition link_kept :: "posix_path option \<Rightarrow> bool" where
  \<comment> \<open>the predicate of the \<open>filter\<close> in \<open>links\<close>\<close>
  "link_kept somelink =
     (lower (snd (splitext (first_field CHR ''#'' (str_of_link somelink)))) = ''.md'')"

definition links :: "env \<Rightarrow> filesystem \<Rightarrow> markdown_file \<Rightarrow> error + posix_path list" where
  \<comment> \<open>the set is a duplicate-free list; \<open>None\<close> never passes the filter (its string has no
      extension), so the elements are paths\<close>
  "links e fs f =
     (case doctree e fs f of
        Inl x \<Rightarrow> Inl x
      | Inr t \<Rightarrow>
          Inr (remdups (List.map_filter id
                 (filter link_kept (map (get_absolute_path e f) (a_hrefs t))))))"

section \<open>MarkdownDirectory\<close>

record markdown_directory =
  p_path :: posix_path
  files :: "(posix_path \<times> markdown_file) list"

fun build_files ::
  "env \<Rightarrow> filesystem \<Rightarrow> posix_path \<Rightarrow> posix_path list \<Rightarrow>
   (posix_path \<times> markdown_file) list \<Rightarrow> error + (posix_path \<times> markdown_file) list" where
  \<comment> \<open>the dictionary comprehension of \<open>MarkdownDirectory.__init__\<close>\<close>
  "build_files e fs pp [] acc = Inr acc"
| "build_files e fs pp (eachpath # rest) acc =
     (let resolved_path =
            resolve (cwd e)
              (join_path (resolve (cwd e) (parent pp)) (parse_path (str_of_path eachpath)))
      in case MarkdownFile e fs eachpath of
           Inl x \<Rightarrow> Inl x
         | Inr f \<Rightarrow> build_files e fs pp rest (dict_set acc resolved_path f))"

definition MarkdownDirectory :: "env \<Rightarrow> filesystem \<Rightarrow> string \<Rightarrow> error + markdown_directory" where
  "MarkdownDirectory e fs path_string =
     (let pp = parse_path path_string in
      case build_files e fs pp (rglob_md e fs pp) [] of
        Inl x \<Rightarrow> Inl x
      | Inr fl \<Rightarrow> Inr \<lparr>p_path = pp, files = fl\<rparr>)"

fun link_map_of ::
  "env \<Rightarrow> filesystem \<Rightarrow> (posix_path \<times> markdown_file) list \<Rightarrow> posix_path list \<Rightarrow>
   error + (posix_path \<times> posix_path list) list" where
  "link_map_of e fs fl [] = Inr []"
| "link_map_of e fs fl (resolved_path # rest) =
     (case map_of fl resolved_path of
        None \<Rightarrow> Inl (KeyError resolved_path)
      | Some f \<Rightarrow>
          (case links e fs f of
             Inl x \<Rightarrow> Inl x
           | Inr ls \<Rightarrow>
               (case link_map_of e fs fl rest of
                  Inl x \<Rightarrow> Inl x
                | Inr m \<Rightarrow> Inr ((resolved_path, ls) # m))))"

definition link_map ::
  "env \<Rightarrow> filesystem \<Rightarrow> markdown_directory \<Rightarrow> error + (posix_path \<times> posix_path list) list" where
  \<comment> \<open>the property \<open>link_map\<close>: one entry per key of \<open>files\<close>, computed from the files as they
      are now\<close>
  "link_map e fs d = link_map_of e fs (files d) (map fst (files d))"

section \<open>Adding the backlinks\<close>

definition separator :: string where
  "separator = ''\<newline>\<newline>---\<newline>\<newline>''"

definition heading_line :: string where
  "heading_line = ''## Backlinks:\<newline>''"

definition marker :: string where
  \<comment> \<open>the literal searched for by \<open>add_backlinks\<close>\<close>
  "marker = ''\<newline>\<newline>---\<newline>\<newline>## Backlinks:\<newline>''"

definition backlink_set ::
  "env \<Rightarrow> filesystem \<Rightarrow> markdown_directory \<Rightarrow> markdown_file \<Rightarrow> error + posix_path list" where
  \<comment> \<open>\<open>{key for key, value in link_map.items() if self.path in value} - self.links\<close>, as a
      duplicate-free list in the order of the keys\<close>
  "backlink_set e fs d f =
     (case link_map e fs d of
        Inl x \<Rightarrow> Inl x
      | Inr lm \<Rightarrow>
          (case links e fs f of
             Inl x \<Rightarrow> Inl x
           | Inr own \<Rightarrow>
               Inr (filter (\<lambda>key. key \<notin> set own)
                      (remdups [key. (key, value) \<leftarrow> lm, path f \<in> set value]))))"

definition backlink_line ::
  "env \<Rightarrow> markdown_directory \<Rightarrow> markdown_file \<Rightarrow> posix_path \<Rightarrow> error + string" where
  \<comment> \<open>the f-string of \<open>add_backlinks\<close>; \<open>files[each_backlink]\<close> raises on a missing key\<close>
  "backlink_line e d f each_backlink =
     (case map_of (files d) each_backlink of
        None \<Rightarrow> Inl (KeyError each_backlink)
      | Some g \<Rightarrow>
          Inr (''- ['' @ heading g @ '']('' @
               relpath (cwd e) each_backlink (parent (path f)) @ '')\<newline>''))"

fun backlink_lines ::
  "env \<Rightarrow> markdown_directory \<Rightarrow> markdown_file \<Rightarrow> posix_path list \<Rightarrow> error + string list" where
  "backlink_lines e d f [] = Inr []"
| "backlink_lines e d f (k # ks) =
     (case backlink_line e d f k of
        Inl x \<Rightarrow> Inl x
      | Inr l \<Rightarrow>
          (case backlink_lines e d f ks of Inl x \<Rightarrow> Inl x | Inr ls \<Rightarrow> Inr (l # ls)))"

definition truncate_block :: "env \<Rightarrow> markdown_file \<Rightarrow> filesystem \<Rightarrow> error + filesystem" where
  \<comment> \<open>the first \<open>with\<close> block of \<open>add_backlinks\<close>: the file is cut at the first marker\<close>
  "truncate_block e f fs =
     (case read_file e fs (path f) of
        Inl x \<Rightarrow> Inl x
      | Inr content \<Rightarrow>
          (case find_sub marker content of
             None \<Rightarrow> Inr fs
           | Some index \<Rightarrow> Inr (write_file e fs (path f) (take index content))))"

definition append_block ::
  "env \<Rightarrow> markdown_directory \<Rightarrow> markdown_file \<Rightarrow> filesystem \<Rightarrow> error + filesystem" where
  \<comment> \<open>the second \<open>with\<close> block: the lines are computed from the files as the first block
      left them, then written at the end of the file\<close>
  "append_block e d f fs =
     (case backlink_set e fs d f of
        Inl x \<Rightarrow> Inl x
      | Inr bl \<Rightarrow>
          (case backlink_lines e d f bl of
             Inl x \<Rightarrow> Inl x
           | Inr ls \<Rightarrow>
               Inr (append_file e fs (path f) (separator @ heading_line @ concat ls))))"

definition add_backlinks ::
  "env \<Rightarrow> markdown_directory \<Rightarrow> markdown_file \<Rightarrow> filesystem \<Rightarrow> error + filesystem" where
  "add_backlinks e d f fs =
     (case truncate_block e f fs of Inl x \<Rightarrow> Inl x | Inr fs1 \<Rightarrow> append_block e d f fs1)"

fun add_each ::
  "env \<Rightarrow> markdown_directory \<Rightarrow> markdown_file list \<Rightarrow> filesystem \<Rightarrow> error + filesystem" where
  "add_each e d [] fs = Inr fs"
| "add_each e d (f # rest) fs =
     (case add_backlinks e d f fs of Inl x \<Rightarrow> Inl x | Inr fs' \<Rightarrow> add_each e d rest fs')"

definition add_all_backlinks ::
  "env \<Rightarrow> markdown_directory \<Rightarrow> filesystem \<Rightarrow> error + filesystem" where
  \<comment> \<open>\<open>for file in self.files.values(): file.add_backlinks()\<close>\<close>
  "add_all_backlinks e d fs = add_each e d (map snd (files d)) fs"

section \<open>Notions used in the statements\<close>

definition canonical :: "posix_path \<Rightarrow> bool" where
  \<comment> \<open>an absolute path with a single root and no empty, \<open>.\<close> or \<open>..\<close> component\<close>
  "canonical p =
     (root p = Root \<and> list_all (\<lambda>x. x \<noteq> [] \<and> x \<noteq> ''.'' \<and> x \<noteq> ''..'') (parts p))"


section \<open>Sample collections\<close>

text \<open>
  The concrete inputs at which the theorems below are instantiated. The sample renderer
  is a table: for each content that occurs, the headings and link targets that the
  markdown renderer finds in it; on any other content the parser raises.
\<close>

definition sample_cwd :: posix_path where
  "sample_cwd = PosixPath Root [''home'', ''u'']"

definition alpha_text :: string where
  "alpha_text = ''# Alpha\<newline>\<newline>[to b](b.md)\<newline>''"

definition beta_text :: string where
  "beta_text = ''# Beta\<newline>''"

definition stray_text :: string where
  "stray_text = ''# T\<newline>\<newline>---\<newline>\<newline>## Backlinks:''"

definition wiki_a_text :: string where
  "wiki_a_text = ''# A\<newline>\<newline>[b](b.md) [gone](gone.md)\<newline>''"

definition wiki_b_text :: string where
  "wiki_b_text = ''# B\<newline>\<newline>[a](a.md)\<newline>''"

definition wiki_c_text :: string where
  "wiki_c_text = ''# C\<newline>\<newline>[b](b.md)\<newline>''"

definition notes_text :: string where
  "notes_text =
     ''[x](/notes/b.md#intro) [y](c.md#top) [z](image.png) [w](http://example.com) [v](D.MD)\<newline>''"

definition image_text :: string where
  "image_text = ''[z](image.png)\<newline>''"

definition sample_render :: "string \<Rightarrow> element_tree option" where
  "sample_render = map_of
     [(alpha_text, \<lparr>h1_texts = [''Alpha''], a_hrefs = [Some ''b.md'']\<rparr>),
      (beta_text, \<lparr>h1_texts = [''Beta''], a_hrefs = []\<rparr>),
      (alpha_text @ marker, \<lparr>h1_texts = [''Alpha''], a_hrefs = [Some ''b.md'']\<rparr>),
      (beta_text @ marker, \<lparr>h1_texts = [''Beta''], a_hrefs = []\<rparr>),
      (beta_text @ marker @ ''- [Alpha](a.md)\<newline>'',
         \<lparr>h1_texts = [''Beta''], a_hrefs = [Some ''a.md'']\<rparr>),
      (stray_text, \<lparr>h1_texts = [''T''], a_hrefs = []\<rparr>),
      (stray_text @ marker, \<lparr>h1_texts = [''T''], a_hrefs = []\<rparr>),
      (''# T'', \<lparr>h1_texts = [''T''], a_hrefs = []\<rparr>),
      (''# T'' @ marker, \<lparr>h1_texts = [''T''], a_hrefs = []\<rparr>),
      (wiki_a_text, \<lparr>h1_texts = [''A''], a_hrefs = [Some ''b.md'', Some ''gone.md'']\<rparr>),
      (wiki_b_text, \<lparr>h1_texts = [''B''], a_hrefs = [Some ''a.md'']\<rparr>),
      (wiki_c_text, \<lparr>h1_texts = [''C''], a_hrefs = [Some ''b.md'']\<rparr>),
      (wiki_a_text @ marker,
         \<lparr>h1_texts = [''A''], a_hrefs = [Some ''b.md'', Some ''gone.md'']\<rparr>),
      (wiki_b_text @ marker @ ''- [C](c.md)\<newline>'',
         \<lparr>h1_texts = [''B''], a_hrefs = [Some ''a.md'', Some ''c.md'']\<rparr>),
      (notes_text, \<lparr>h1_texts = [],
         a_hrefs = [Some ''/notes/b.md#intro'', Some ''c.md#top'', Some ''image.png'',
                    Some ''http://example.com'', Some ''D.MD'']\<rparr>),
      (image_text, \<lparr>h1_texts = [], a_hrefs = [Some ''image.png'']\<rparr>)]"

definition sample_env :: env where
  "sample_env = \<lparr>cwd = sample_cwd, render = sample_render\<rparr>"

definition docs_file :: "string \<Rightarrow> posix_path" where
  "docs_file n = PosixPath Root [''home'', ''u'', ''docs'', n]"

definition two_docs :: filesystem where
  \<comment> \<open>\<open>a.md\<close> links to \<open>b.md\<close>, \<open>b.md\<close> has no link\<close>
  "two_docs = [(docs_file ''a.md'', alpha_text), (docs_file ''b.md'', beta_text)]"

definition stray_docs :: filesystem where
  \<comment> \<open>one file that ends with a hand-written backlinks heading and no final newline\<close>
  "stray_docs = [(docs_file ''t.md'', stray_text)]"

definition wiki_docs :: filesystem where
  \<comment> \<open>\<open>a.md\<close> and \<open>b.md\<close> link to each other, \<open>c.md\<close> links to \<open>b.md\<close>, and \<open>a.md\<close> has a
      link to a file that does not exist\<close>
  "wiki_docs = [(docs_file ''a.md'', wiki_a_text), (docs_file ''b.md'', wiki_b_text),
                (docs_file ''c.md'', wiki_c_text)]"




definition file_at :: "posix_path \<Rightarrow> string \<Rightarrow> markdown_file" where
  "file_at p h = \<lparr>path = p, heading = h\<rparr>"

definition docs_dir :: "(string \<times> string) list \<Rightarrow> markdown_directory" where
  \<comment> \<open>the collection built from \<open>/home/u/docs\<close> for files with the given names and
      headings\<close>
  "docs_dir nhs =
     \<lparr>p_path = PosixPath Root [''home'', ''u'', ''docs''],
      files = map (\<lambda>(n, h). (docs_file n, file_at (docs_file n) h)) nhs\<rparr>"

definition relative_docs_dir :: markdown_directory where
  \<comment> \<open>what \<open>MarkdownDirectory('docs')\<close> builds for \<open>two_docs\<close> in \<open>/home/u\<close>\<close>
  "relative_docs_dir =
     \<lparr>p_path = PosixPath Relative [''docs''],
      files = [(docs_file ''a.md'', file_at (PosixPath Relative [''docs'', ''a.md'']) ''Alpha''),
               (docs_file ''b.md'', file_at (PosixPath Relative [''docs'', ''b.md'']) ''Beta'')]\<rparr>"

section \<open>Auxiliary facts\<close>

subsection \<open>Reading and writing\<close>








subsection \<open>Strings and paths\<close>

lemma split_sep_not_Nil: "split_sep c s \<noteq> []"
  by (induction s) (auto split: list.splits)

lemma first_field_takeWhile: "first_field c s = takeWhile (\<lambda>x. x \<noteq> c) s"
  unfolding first_field_def
  by (induction s) (auto split: list.splits simp: split_sep_not_Nil)








lemma normalize_elems:
  "x \<in> set (normalize acc xs) \<Longrightarrow>
   x \<in> set acc \<or> (x \<in> set xs \<and> x \<noteq> [] \<and> x \<noteq> ''.'' \<and> x \<noteq> ''..'')"
proof (induction acc xs rule: normalize.induct)
  case (1 acc)
  then show ?case by simp
next
  case (2 acc y ys)
  show ?case
  proof (cases "y = [] \<or> y = ''.''")
    case True
    with 2 show ?thesis by auto
  next
    case False
    show ?thesis
    proof (cases "y = ''..''")
      case True
      with False 2 have "x \<in> set (case acc of [] \<Rightarrow> [] | _ # t \<Rightarrow> t) \<or>
          (x \<in> set ys \<and> x \<noteq> [] \<and> x \<noteq> ''.'' \<and> x \<noteq> ''..'')" by simp
      then show ?thesis by (auto split: list.splits)
    next
      case n: False
      with False 2 have "x \<in> set (y # acc) \<or>
          (x \<in> set ys \<and> x \<noteq> [] \<and> x \<noteq> ''.'' \<and> x \<noteq> ''..'')" by simp
      with False n show ?thesis by auto
    qed
  qed
qed

lemma resolve_canonical: "canonical (resolve wd p)"
  using normalize_elems [of _ "[]"]
  by (auto simp: canonical_def resolve_def list_all_iff)









subsection \<open>Keys and candidates\<close>

lemma links_not_KeyError: "links e fs f \<noteq> Inl (KeyError k)"
  by (auto simp: links_def doctree_def read_file_def split: sum.splits option.splits)

lemma link_map_of_set:
  "link_map_of e fs fl ks = Inr m \<Longrightarrow>
   set m = {(k, ls). k \<in> set ks \<and> (\<exists>g. map_of fl k = Some g \<and> links e fs g = Inr ls)}"
proof (induction ks arbitrary: m)
  case Nil
  then show ?case by simp
next
  case (Cons k ks)
  from Cons.prems obtain g ls m' where
    g: "map_of fl k = Some g" and l: "links e fs g = Inr ls" and
    m': "link_map_of e fs fl ks = Inr m'" and m: "m = (k, ls) # m'"
    by (auto split: option.splits sum.splits)
  from Cons.IH [OF m'] g l m show ?case by auto
qed

lemma link_map_of_not_KeyError:
  "set ks \<subseteq> fst ` set fl \<Longrightarrow> link_map_of e fs fl ks \<noteq> Inl (KeyError k)"
proof (induction ks)
  case Nil
  then show ?case by simp
next
  case (Cons a ks)
  then have "map_of fl a \<noteq> None" by (simp add: map_of_eq_None_iff)
  with Cons show ?case
    by (auto simp: links_not_KeyError split: option.splits sum.splits)
qed

lemma backlink_set_eq:
  assumes "backlink_set e fs d f = Inr bl"
  shows "\<exists>own. links e fs f = Inr own \<and>
     set bl = {k. k \<in> fst ` set (files d) \<and>
                 (\<exists>g ls. map_of (files d) k = Some g \<and> links e fs g = Inr ls \<and>
                          path f \<in> set ls)} - set own"
proof -
  from assms obtain lm own where lm: "link_map e fs d = Inr lm"
    and own: "links e fs f = Inr own"
    and bl: "bl = filter (\<lambda>key. key \<notin> set own)
                    (remdups (concat (map (\<lambda>(key, value). if path f \<in> set value then [key] else []) lm)))"
    by (auto simp: backlink_set_def split: sum.splits)
  from link_map_of_set [OF lm [unfolded link_map_def]]
  have "set lm = {(k, ls). k \<in> fst ` set (files d) \<and>
                    (\<exists>g. map_of (files d) k = Some g \<and> links e fs g = Inr ls)}"
    by simp
  then have "set bl = {k. k \<in> fst ` set (files d) \<and>
                 (\<exists>g ls. map_of (files d) k = Some g \<and> links e fs g = Inr ls \<and>
                          path f \<in> set ls)} - set own"
    unfolding bl by (auto split: if_splits)
  with own show ?thesis by blast
qed

lemma backlink_set_keys:
  "backlink_set e fs d f = Inr bl \<Longrightarrow> set bl \<subseteq> fst ` set (files d)"
  using backlink_set_eq [of e fs d f bl] by auto

lemma backlink_set_not_KeyError: "backlink_set e fs d f \<noteq> Inl (KeyError k)"
  using link_map_of_not_KeyError [of "map fst (files d)" "files d" e fs k]
  by (auto simp: backlink_set_def link_map_def links_not_KeyError split: sum.splits)

lemma backlink_lines_total:
  "set bl \<subseteq> fst ` set (files d) \<Longrightarrow> \<exists>ls. backlink_lines e d f bl = Inr ls"
proof (induction bl)
  case Nil
  then show ?case by simp
next
  case (Cons a bl)
  then have "map_of (files d) a \<noteq> None" by (simp add: map_of_eq_None_iff)
  with Cons show ?case
    by (auto simp: backlink_line_def split: option.splits sum.splits)
qed

lemma truncate_block_not_KeyError: "truncate_block e f fs \<noteq> Inl (KeyError k)"
  by (auto simp: truncate_block_def read_file_def split: sum.splits option.splits)

subsection \<open>Letter case and extensions\<close>








subsection \<open>Link targets\<close>


lemma link_kept_None: "\<not> link_kept None"
  by (simp add: link_kept_def str_of_link_def first_field_takeWhile splitext_def rfind_def lower_def)










section \<open>The appended block\<close>







section \<open>Backlink candidates\<close>

lemma add_backlinks_not_KeyError: "add_backlinks e d f fs \<noteq> Inl (KeyError k)"
proof
  assume a: "add_backlinks e d f fs = Inl (KeyError k)"
  show False
  proof (cases "truncate_block e f fs")
    case (Inl x)
    with a truncate_block_not_KeyError [of e f fs k] show False
      by (simp add: add_backlinks_def)
  next
    case (Inr fs1)
    with a have ab: "append_block e d f fs1 = Inl (KeyError k)"
      by (simp add: add_backlinks_def)
    show False
    proof (cases "backlink_set e fs1 d f")
      case (Inl x)
      with ab backlink_set_not_KeyError [of e fs1 d f k] show False
        by (simp add: append_block_def)
    next
      case (Inr bl)
      from backlink_lines_total [OF backlink_set_keys [OF Inr]]
      obtain ls where "backlink_lines e d f bl = Inr ls" by blast
      with ab Inr show False by (simp add: append_block_def)
    qed
  qed
qed

text \<open>
  Claim C7. The lookup \<open>files[each_backlink]\<close> made while the lines are rendered never
  raises: \<open>add_backlinks\<close> never ends in a \<open>KeyError\<close>, every element of the backlink set is
  a key of \<open>files\<close>, so its lines are all rendered, and a link target that is not a key of
  \<open>files\<close> is not in the backlink set.
\<close>

theorem title_lookup_never_fails:
  "add_backlinks e d f fs \<noteq> Inl (KeyError k) \<and>
   (backlink_set e fs d f = Inr bl \<longrightarrow>
      (\<forall>b\<in>set bl. \<exists>g. map_of (files d) b = Some g) \<and>
      (\<exists>ls. backlink_lines e d f bl = Inr ls) \<and>
      (\<forall>t. t \<notin> fst ` set (files d) \<longrightarrow> t \<notin> set bl))"
proof -
  have "(\<forall>b\<in>set bl. \<exists>g. map_of (files d) b = Some g) \<and>
      (\<exists>ls. backlink_lines e d f bl = Inr ls) \<and>
      (\<forall>t. t \<notin> fst ` set (files d) \<longrightarrow> t \<notin> set bl)"
    if b: "backlink_set e fs d f = Inr bl"
  proof -
    note sub = backlink_set_keys [OF b]
    have "\<forall>b\<in>set bl. \<exists>g. map_of (files d) b = Some g"
    proof
      fix b assume "b \<in> set bl"
      with sub have "b \<in> fst ` set (files d)" by blast
      then have "map_of (files d) b \<noteq> None" by (simp add: map_of_eq_None_iff)
      then show "\<exists>g. map_of (files d) b = Some g" by auto
    qed
    moreover from backlink_lines_total [OF sub]
    have "\<exists>ls. backlink_lines e d f bl = Inr ls" .
    moreover from sub have "\<forall>t. t \<notin> fst ` set (files d) \<longrightarrow> t \<notin> set bl" by blast
    ultimately show ?thesis by blast
  qed
  with add_backlinks_not_KeyError show ?thesis by blast
qed

theorem title_lookup_never_fails_witness:
  "links sample_env wiki_docs (file_at (docs_file ''a.md'') ''A'')
     = Inr [docs_file ''b.md'', docs_file ''gone.md''] \<and>
   docs_file ''gone.md'' \<notin> fst ` set (files (docs_dir [(''a.md'', ''A''), (''b.md'', ''B''), (''c.md'', ''C'')])) \<and>
   backlink_set sample_env wiki_docs (docs_dir [(''a.md'', ''A''), (''b.md'', ''B''), (''c.md'', ''C'')])
     (file_at (docs_file ''b.md'') ''B'') = Inr [docs_file ''c.md''] \<and>
   add_backlinks sample_env (docs_dir [(''a.md'', ''A''), (''b.md'', ''B''), (''c.md'', ''C'')])
     (file_at (docs_file ''b.md'') ''B'') wiki_docs \<noteq> Inl (KeyError (docs_file ''gone.md'')) \<and>
   (\<exists>g. map_of (files (docs_dir [(''a.md'', ''A''), (''b.md'', ''B''), (''c.md'', ''C'')]))
          (docs_file ''c.md'') = Some g) \<and>
   (\<exists>ls. backlink_lines sample_env (docs_dir [(''a.md'', ''A''), (''b.md'', ''B''), (''c.md'', ''C'')])
          (file_at (docs_file ''b.md'') ''B'') [docs_file ''c.md''] = Inr ls) \<and>
   docs_file ''gone.md'' \<notin> set [docs_file ''c.md'']"
proof -
  let ?d = "docs_dir [(''a.md'', ''A''), (''b.md'', ''B''), (''c.md'', ''C'')]"
  let ?f = "file_at (docs_file ''b.md'') ''B''"
  have l: "links sample_env wiki_docs (file_at (docs_file ''a.md'') ''A'')
     = Inr [docs_file ''b.md'', docs_file ''gone.md'']" by code_simp
  have g: "docs_file ''gone.md'' \<notin> fst ` set (files ?d)" by code_simp
  have b: "backlink_set sample_env wiki_docs ?d ?f = Inr [docs_file ''c.md'']" by code_simp
  from title_lookup_never_fails [of sample_env ?d ?f wiki_docs "docs_file ''gone.md''"
      "[docs_file ''c.md'']"] b g l
  show ?thesis by simp
qed

text \<open>
  Claim C3, as stated, fails: in the collection where \<open>a.md\<close> links to \<open>b.md\<close> and \<open>b.md\<close>
  links to nothing, the outbound links of \<open>a.md\<close> contain \<open>b.md\<close>, and the backlink set
  computed for \<open>b.md\<close> is exactly \<open>a.md\<close>.
\<close>

theorem symmetry_exclusion_counterexample:
  "links sample_env two_docs (file_at (docs_file ''a.md'') ''Alpha'') = Inr [docs_file ''b.md''] \<and>
   backlink_set sample_env two_docs (docs_dir [(''a.md'', ''Alpha''), (''b.md'', ''Beta'')])
     (file_at (docs_file ''b.md'') ''Beta'') = Inr [docs_file ''a.md'']"
  by code_simp

text \<open>
  Claim C3, amended. The set subtracted is the current document's own set of links: a
  key that is among the links of \<open>B\<close> at the moment the backlinks of \<open>B\<close> are computed is
  not among the backlinks of \<open>B\<close>, while every other key whose document links to the path
  of \<open>B\<close> is. So of two documents that link to each other neither is a backlink of the
  other, and a third document that links to \<open>B\<close> stays one.
\<close>

theorem own_links_excluded:
  assumes "backlink_set e fs d f = Inr bl"
  shows "\<exists>own. links e fs f = Inr own \<and>
     (\<forall>a\<in>set own. a \<notin> set bl) \<and>
     (\<forall>c g ls. map_of (files d) c = Some g \<and> links e fs g = Inr ls \<and>
        path f \<in> set ls \<and> c \<notin> set own \<longrightarrow> c \<in> set bl)"
proof -
  from backlink_set_eq [OF assms] obtain own where
    own: "links e fs f = Inr own" and
    eq: "set bl = {k. k \<in> fst ` set (files d) \<and>
                 (\<exists>g ls. map_of (files d) k = Some g \<and> links e fs g = Inr ls \<and>
                          path f \<in> set ls)} - set own"
    by blast
  have "\<forall>a\<in>set own. a \<notin> set bl" using eq by blast
  moreover have "\<forall>c g ls. map_of (files d) c = Some g \<and> links e fs g = Inr ls \<and>
        path f \<in> set ls \<and> c \<notin> set own \<longrightarrow> c \<in> set bl"
  proof (intro allI impI)
    fix c g ls
    assume h: "map_of (files d) c = Some g \<and> links e fs g = Inr ls \<and>
        path f \<in> set ls \<and> c \<notin> set own"
    then have "c \<in> fst ` set (files d)"
      by (metis map_of_eq_None_iff option.distinct(1))
    with h eq show "c \<in> set bl" by blast
  qed
  ultimately show ?thesis using own by blast
qed

theorem own_links_excluded_witness:
  "backlink_set sample_env wiki_docs (docs_dir [(''a.md'', ''A''), (''b.md'', ''B''), (''c.md'', ''C'')])
     (file_at (docs_file ''b.md'') ''B'') = Inr [docs_file ''c.md''] \<and>
   links sample_env wiki_docs (file_at (docs_file ''b.md'') ''B'') = Inr [docs_file ''a.md''] \<and>
   links sample_env wiki_docs (file_at (docs_file ''a.md'') ''A'')
     = Inr [docs_file ''b.md'', docs_file ''gone.md''] \<and>
   links sample_env wiki_docs (file_at (docs_file ''c.md'') ''C'') = Inr [docs_file ''b.md''] \<and>
   docs_file ''a.md'' \<notin> set [docs_file ''c.md''] \<and>
   docs_file ''c.md'' \<in> set [docs_file ''c.md''] \<and>
   backlink_set sample_env wiki_docs (docs_dir [(''a.md'', ''A''), (''b.md'', ''B''), (''c.md'', ''C'')])
     (file_at (docs_file ''a.md'') ''A'') = Inr [] \<and>
   add_all_backlinks sample_env (docs_dir [(''a.md'', ''A''), (''b.md'', ''B''), (''c.md'', ''C'')])
     wiki_docs
     = Inr [(docs_file ''a.md'', wiki_a_text @ marker),
            (docs_file ''b.md'', wiki_b_text @ marker @ ''- [C](c.md)\<newline>''),
            (docs_file ''c.md'', wiki_c_text @ marker)]"
proof -
  let ?d = "docs_dir [(''a.md'', ''A''), (''b.md'', ''B''), (''c.md'', ''C'')]"
  let ?f = "file_at (docs_file ''b.md'') ''B''"
  have b: "backlink_set sample_env wiki_docs ?d ?f = Inr [docs_file ''c.md'']" by code_simp
  have lb: "links sample_env wiki_docs ?f = Inr [docs_file ''a.md'']" by code_simp
  have la: "links sample_env wiki_docs (file_at (docs_file ''a.md'') ''A'')
     = Inr [docs_file ''b.md'', docs_file ''gone.md'']" by code_simp
  have lc: "links sample_env wiki_docs (file_at (docs_file ''c.md'') ''C'') = Inr [docs_file ''b.md'']"
    by code_simp
  have ba: "backlink_set sample_env wiki_docs ?d (file_at (docs_file ''a.md'') ''A'') = Inr []"
    by code_simp
  have pass: "add_all_backlinks sample_env ?d wiki_docs
     = Inr [(docs_file ''a.md'', wiki_a_text @ marker),
            (docs_file ''b.md'', wiki_b_text @ marker @ ''- [C](c.md)\<newline>''),
            (docs_file ''c.md'', wiki_c_text @ marker)]" by code_simp
  have mc: "map_of (files ?d) (docs_file ''c.md'') = Some (file_at (docs_file ''c.md'') ''C'')"
    by code_simp
  have pin: "path ?f \<in> set [docs_file ''b.md'']" by code_simp
  from own_links_excluded [OF b] lb obtain
    x: "\<forall>a\<in>set [docs_file ''a.md'']. a \<notin> set [docs_file ''c.md'']" and
    y: "\<forall>c g ls. map_of (files ?d) c = Some g \<and> links sample_env wiki_docs g = Inr ls \<and>
        path ?f \<in> set ls \<and> c \<notin> set [docs_file ''a.md''] \<longrightarrow> c \<in> set [docs_file ''c.md'']"
    by auto
  from x have n: "docs_file ''a.md'' \<notin> set [docs_file ''c.md'']" by simp
  have "docs_file ''c.md'' \<notin> set [docs_file ''a.md'']" by code_simp
  with y mc lc pin have i: "docs_file ''c.md'' \<in> set [docs_file ''c.md'']" by blast
  from b lb la lc n i ba pass show ?thesis by blast
qed

section \<open>Resolving link targets\<close>

text \<open>
  Claim C6. \<open>get_absolute_path\<close> depends on the target and on the directory of the document
  only. An absent target and the empty string give \<open>None\<close>. A target that begins with \<open>/\<close>
  is returned as the path \<open>Path(target)\<close>, nothing cut off. Any other target is cut at its
  first \<open>#\<close>, joined to the resolved directory of the document and resolved; the result is
  a canonical absolute path.
\<close>

theorem get_absolute_path_cases:
  "get_absolute_path e f None = None \<and>
   get_absolute_path e f (Some []) = None \<and>
   get_absolute_path e f (Some (CHR ''/'' # cs)) = Some (parse_path (CHR ''/'' # cs)) \<and>
   (c \<noteq> CHR ''/'' \<longrightarrow>
      (\<exists>r. get_absolute_path e f (Some (c # cs)) = Some r \<and>
           r = resolve (cwd e)
                 (join_path (resolve (cwd e) (parent (path f)))
                    (parse_path (takeWhile (\<lambda>x. x \<noteq> CHR ''#'') (c # cs)))) \<and>
           canonical r)) \<and>
   (parent (path g) = parent (path f) \<longrightarrow>
      get_absolute_path e g x = get_absolute_path e f x)"
proof -
  have one: "get_absolute_path e f None = None"
    by (simp add: get_absolute_path_def)
  have two: "get_absolute_path e f (Some []) = None"
    by (simp add: get_absolute_path_def)
  have three: "get_absolute_path e f (Some (CHR ''/'' # cs)) = Some (parse_path (CHR ''/'' # cs))"
    by (simp add: get_absolute_path_def)
  have four: "\<exists>r. get_absolute_path e f (Some (c # cs)) = Some r \<and>
           r = resolve (cwd e)
                 (join_path (resolve (cwd e) (parent (path f)))
                    (parse_path (takeWhile (\<lambda>x. x \<noteq> CHR ''#'') (c # cs)))) \<and>
           canonical r"
    if "c \<noteq> CHR ''/''"
  proof -
    have "get_absolute_path e f (Some (c # cs)) =
        Some (resolve (cwd e)
                 (join_path (resolve (cwd e) (parent (path f)))
                    (parse_path (takeWhile (\<lambda>x. x \<noteq> CHR ''#'') (c # cs)))))"
      using that by (simp only: get_absolute_path_def first_field_takeWhile) simp
    with resolve_canonical show ?thesis by blast
  qed
  have five: "get_absolute_path e g x = get_absolute_path e f x"
    if "parent (path g) = parent (path f)"
    using that by (simp add: get_absolute_path_def split: option.splits list.splits)
  from one two three four five show ?thesis by blast
qed

theorem get_absolute_path_cases_witness:
  "get_absolute_path sample_env (file_at (docs_file ''n.md'') ''n.md'') None = None \<and>
   get_absolute_path sample_env (file_at (docs_file ''n.md'') ''n.md'') (Some []) = None \<and>
   get_absolute_path sample_env (file_at (docs_file ''n.md'') ''n.md'') (Some ''/notes/b.md'')
     = Some (PosixPath Root [''notes'', ''b.md'']) \<and>
   CHR ''s'' \<noteq> CHR ''/'' \<and>
   get_absolute_path sample_env (file_at (docs_file ''n.md'') ''n.md'') (Some ''sub/../c.md#top'')
     = Some (docs_file ''c.md'') \<and>
   canonical (docs_file ''c.md'') \<and>
   parent (path (file_at (docs_file ''other.md'') ''Other'')) = parent (path (file_at (docs_file ''n.md'') ''n.md'')) \<and>
   get_absolute_path sample_env (file_at (docs_file ''other.md'') ''Other'') (Some ''sub/../c.md#top'')
     = get_absolute_path sample_env (file_at (docs_file ''n.md'') ''n.md'') (Some ''sub/../c.md#top'')"
proof -
  let ?f = "file_at (docs_file ''n.md'') ''n.md''"
  let ?g = "file_at (docs_file ''other.md'') ''Other''"
  have p: "parent (path ?g) = parent (path ?f)" by code_simp
  have n: "CHR ''s'' \<noteq> CHR ''/''" by simp
  have a: "parse_path (CHR ''/'' # ''notes/b.md'') = PosixPath Root [''notes'', ''b.md'']"
    by code_simp
  have r: "resolve (cwd sample_env)
             (join_path (resolve (cwd sample_env) (parent (path ?f)))
                (parse_path (takeWhile (\<lambda>x. x \<noteq> CHR ''#'') (CHR ''s'' # ''ub/../c.md#top''))))
           = docs_file ''c.md''"
    by code_simp
  from get_absolute_path_cases [where e = sample_env and f = ?f and cs = "''notes/b.md''"]
  have a': "get_absolute_path sample_env ?f (Some ''/notes/b.md'') = Some (PosixPath Root [''notes'', ''b.md''])"
    using a by simp
  from get_absolute_path_cases [where e = sample_env and f = ?f and c = "CHR ''s''"
        and cs = "''ub/../c.md#top''" and g = ?g and x = "Some ''sub/../c.md#top''"] p n a' r
  show ?thesis by simp
qed




section \<open>The extension filter\<close>









section \<open>The spelling of the root\<close>

text \<open>
  Claim C9 does not hold of the code. \<open>MarkdownDirectory('docs')\<close>, run in \<open>/home/u\<close>, keys
  the file \<open>a.md\<close> by \<open>/home/u/docs/a.md\<close> and gives the document the path \<open>docs/a.md\<close>: the
  key is resolved, the path handed to \<open>MarkdownFile\<close> is the one \<open>rglob\<close> produced.
\<close>

theorem relative_root_path_differs_from_key:
  "MarkdownDirectory sample_env two_docs ''docs'' = Inr relative_docs_dir \<and>
   map_of (files relative_docs_dir) (docs_file ''a.md'')
     = Some (file_at (PosixPath Relative [''docs'', ''a.md'']) ''Alpha'') \<and>
   path (file_at (PosixPath Relative [''docs'', ''a.md'']) ''Alpha'') \<noteq> docs_file ''a.md'' \<and>
   resolve (cwd sample_env) (path (file_at (PosixPath Relative [''docs'', ''a.md'']) ''Alpha''))
     = docs_file ''a.md''"
  by code_simp

text \<open>
  Claim C1 does not hold of the code. The membership test of \<open>add_backlinks\<close> looks for the
  document's stored path among link sets that hold resolved paths. For the collection
  built from the relative root \<open>docs\<close>, \<open>a.md\<close> links to the canonical path of \<open>b.md\<close>, the
  stored path of \<open>b.md\<close> resolves to it, and yet the backlink set of \<open>b.md\<close> is empty and the
  pass writes no entry; built from \<open>/home/u/docs\<close>, the same files give the backlink
  \<open>a.md\<close>.
\<close>

theorem relative_root_finds_no_backlinks:
  "MarkdownDirectory sample_env two_docs ''docs'' = Inr relative_docs_dir \<and>
   links sample_env two_docs (file_at (PosixPath Relative [''docs'', ''a.md'']) ''Alpha'')
     = Inr [docs_file ''b.md''] \<and>
   resolve (cwd sample_env) (PosixPath Relative [''docs'', ''b.md'']) = docs_file ''b.md'' \<and>
   backlink_set sample_env two_docs relative_docs_dir
     (file_at (PosixPath Relative [''docs'', ''b.md'']) ''Beta'') = Inr [] \<and>
   add_all_backlinks sample_env relative_docs_dir two_docs
     = Inr [(docs_file ''a.md'', alpha_text @ marker), (docs_file ''b.md'', beta_text @ marker)] \<and>
   MarkdownDirectory sample_env two_docs ''/home/u/docs''
     = Inr (docs_dir [(''a.md'', ''Alpha''), (''b.md'', ''Beta'')]) \<and>
   backlink_set sample_env two_docs (docs_dir [(''a.md'', ''Alpha''), (''b.md'', ''Beta'')])
     (file_at (docs_file ''b.md'') ''Beta'') = Inr [docs_file ''a.md''] \<and>
   add_all_backlinks sample_env (docs_dir [(''a.md'', ''Alpha''), (''b.md'', ''Beta'')]) two_docs
     = Inr [(docs_file ''a.md'', alpha_text @ marker),
            (docs_file ''b.md'', beta_text @ marker @ ''- [Alpha](a.md)\<newline>'')]"
  by code_simp

section \<open>Running the pass twice\<close>

text \<open>
  Claim C2 does not hold of the code. A file that ends with \<open>\n\n---\n\n## Backlinks:\<close> and
  no newline holds no marker, so the first pass cuts nothing and appends the marker; the
  first newline of what was appended completes a marker that starts inside the old
  content, the second pass cuts there, and the file after two passes differs from the
  file after one. For the collection of \<open>a.md\<close> and \<open>b.md\<close> the second pass changes
  nothing.
\<close>

theorem second_pass_changes_file:
  "MarkdownDirectory sample_env stray_docs ''/home/u/docs'' = Inr (docs_dir [(''t.md'', ''T'')]) \<and>
   add_all_backlinks sample_env (docs_dir [(''t.md'', ''T'')]) stray_docs
     = Inr [(docs_file ''t.md'',
             ''# T\<newline>\<newline>---\<newline>\<newline>## Backlinks:\<newline>\<newline>---\<newline>\<newline>## Backlinks:\<newline>'')] \<and>
   add_all_backlinks sample_env (docs_dir [(''t.md'', ''T'')])
       [(docs_file ''t.md'',
         ''# T\<newline>\<newline>---\<newline>\<newline>## Backlinks:\<newline>\<newline>---\<newline>\<newline>## Backlinks:\<newline>'')]
     = Inr [(docs_file ''t.md'', ''# T\<newline>\<newline>---\<newline>\<newline>## Backlinks:\<newline>'')] \<and>
   find_sub marker stray_text = None \<and>
   find_sub marker (stray_text @ marker) = Some 3 \<and>
   add_all_backlinks sample_env (docs_dir [(''a.md'', ''Alpha''), (''b.md'', ''Beta'')])
       [(docs_file ''a.md'', alpha_text @ marker),
        (docs_file ''b.md'', beta_text @ marker @ ''- [Alpha](a.md)\<newline>'')]
     = Inr [(docs_file ''a.md'', alpha_text @ marker),
            (docs_file ''b.md'', beta_text @ marker @ ''- [Alpha](a.md)\<newline>'')]"
  by code_simp

end
